theory Spec2Isabelle
  imports Main
begin

section \<open>JavaScript values and request bodies\<close>

text \<open>
  A request body is the object that the JSON body parser produced. Its fields hold
  arbitrary JSON values, and the handlers test them with JavaScript truthiness,
  \<^verbatim>\<open>typeof\<close> and strict equality, so the values are modelled as a datatype.
  Numbers enter the handlers only through truthiness and \<^verbatim>\<open>typeof\<close>.
\<close>

datatype jsval =
    JUndefined
  | JNull
  | JBool bool
  | JNum int
  | JStr string
  | JArr "jsval list"
  | JObj "(string \<times> jsval) list"

fun truthy :: "jsval \<Rightarrow> bool" where
  "truthy JUndefined = False"
| "truthy JNull = False"
| "truthy (JBool b) = b"
| "truthy (JNum n) = (n \<noteq> 0)"
| "truthy (JStr s) = (s \<noteq> [])"
| "truthy (JArr xs) = True"
| "truthy (JObj kvs) = True"

type_synonym body = "string \<rightharpoonup> jsval"

text \<open>Reading a property: a key that is absent reads as \<^verbatim>\<open>undefined\<close>.\<close>

definition field :: "body \<Rightarrow> string \<Rightarrow> jsval" where
  "field b k = (case b k of None \<Rightarrow> JUndefined | Some v \<Rightarrow> v)"

section \<open>Responses\<close>

text \<open>The texts of the errors that the handlers build, one constructor for each.\<close>

datatype message =
    MissingField string
  | IncorrectFieldType string
  | NeedToRemoveWhitespace string
  | IdNotValid
  | MissingTitle
  | FolderIdNotValid
  | TagsIdNotValid
  | FolderNotValid
  | TagNotValid

text \<open>
  What a handler does with its \<^verbatim>\<open>res\<close> and \<^verbatim>\<open>next\<close> arguments, in the order
  in which it does it. \<open>NextErr st m\<close> is \<^verbatim>\<open>next(err)\<close> for an error that the handler
  built with \<^verbatim>\<open>err.status = st\<close>; \<open>NextFailure\<close> is \<^verbatim>\<open>next(err)\<close> for an error
  that carries no status (a thrown \<^verbatim>\<open>TypeError\<close>, a failed query); \<open>NextNone\<close> is
  \<^verbatim>\<open>next()\<close>, which hands the request on to the not-found handler; \<open>Json st x\<close> is
  \<^verbatim>\<open>res.status(st).json(x)\<close> (the \<^verbatim>\<open>Location\<close> header is left out);
  \<open>SendStatus st\<close> is \<^verbatim>\<open>res.sendStatus(st)\<close>.
\<close>

datatype 'a response =
    NextErr nat message
  | NextFailure
  | NextNone
  | Json nat 'a
  | SendStatus nat

section \<open>User registration (routes/users.js)\<close>

record user =
  u_id :: string
  username :: string
  password :: string
  fullname :: jsval

text \<open>The object that the handler rejects the promise chain with for a taken username.\<close>

record rejection =
  code :: nat
  reason :: string
  text_of :: string
  location :: string

datatype user_reply = UserDoc user | ErrorDoc rejection

datatype jstype = TString | TOther

fun typeof :: "jsval \<Rightarrow> jstype" where
  "typeof (JStr s) = TString"
| "typeof v = TOther"

text \<open>
  \<^verbatim>\<open>String.prototype.trim\<close> belongs to the language, not to the sources: the
  definitions below take it as the argument \<open>trim\<close>.

  \<^verbatim>\<open>req.body[field].trim().length\<close>. The handler evaluates it only after it has
  checked that the field is a string.
\<close>

fun trimmed_length :: "(string \<Rightarrow> string) \<Rightarrow> jsval \<Rightarrow> nat" where
  "trimmed_length trim (JStr s) = length (trim s)"
| "trimmed_length trim v = 0"

text \<open>The table \<^verbatim>\<open>sizedFields\<close>: its keys in order, and the bounds it gives each.\<close>

definition sizedFields_keys :: "string list" where
  "sizedFields_keys = [''username'', ''password'']"

definition sizedFields_min :: "string \<Rightarrow> nat option" where
  "sizedFields_min f =
     (if f = ''username'' then Some 1 else if f = ''password'' then Some 8 else None)"

definition sizedFields_max :: "string \<Rightarrow> nat option" where
  "sizedFields_max f = (if f = ''password'' then Some 72 else None)"

definition tooSmallFields :: "(string \<Rightarrow> string) \<Rightarrow> body \<Rightarrow> string option" where
  "tooSmallFields trim b =
     find (\<lambda>f. case sizedFields_min f of
                 None \<Rightarrow> False
               | Some m \<Rightarrow> trimmed_length trim (field b f) < m) sizedFields_keys"

definition tooLargeFields :: "(string \<Rightarrow> string) \<Rightarrow> body \<Rightarrow> string option" where
  "tooLargeFields trim b =
     find (\<lambda>f. case sizedFields_max f of
                 None \<Rightarrow> False
               | Some m \<Rightarrow> trimmed_length trim (field b f) < m) sizedFields_keys"

text \<open>
  The statement guarded by \<^verbatim>\<open>tooSmallFields || tooLargeFields\<close> only binds a
  block-scoped constant \<^verbatim>\<open>err\<close> to a text: whether a text was built.
\<close>

definition size_err :: "(string \<Rightarrow> string) \<Rightarrow> body \<Rightarrow> bool" where
  "size_err trim b = (tooSmallFields trim b \<noteq> None \<or> tooLargeFields trim b \<noteq> None)"

text \<open>
  Modelled from the spec: the model \<^verbatim>\<open>models/user\<close> is not among the sources.
  The collection of users is the list of its documents; \<^verbatim>\<open>User.find({username}).count()\<close>
  counts the documents with that username, and \<^verbatim>\<open>User.create\<close> appends the new
  document under the identifier that the data store assigns to it.
\<close>

definition count_username :: "string \<Rightarrow> user list \<Rightarrow> nat" where
  "count_username name us = length (filter (\<lambda>u. username u = name) us)"

definition already_exist :: "string \<Rightarrow> rejection" where
  "already_exist name =
     \<lparr>code = 422, reason = ''ValidationError'',
      text_of = ''Username '' @ name @ '' already exist, please pick a new one'',
      location = ''username''\<rparr>"

text \<open>
  The test of \<^verbatim>\<open>nonTrimmedFields\<close>: \<^verbatim>\<open>req.body[field].trim() !== req.body[field]\<close>.
  The handler evaluates it only on fields that it has found to be strings.
\<close>

fun untrimmed :: "(string \<Rightarrow> string) \<Rightarrow> jsval \<Rightarrow> bool" where
  "untrimmed trim (JStr s) = (trim s \<noteq> s)"
| "untrimmed trim v = False"

text \<open>
  The handler of \<^verbatim>\<open>POST /users\<close>. \<open>trim\<close> is \<^verbatim>\<open>String.prototype.trim\<close>,
  \<open>hashPassword\<close> is \<^verbatim>\<open>User.hashPassword\<close> of the absent model and \<open>newId\<close> the
  identifier that the data store gives the new document. The result is what the handler did with \<^verbatim>\<open>res\<close> and \<^verbatim>\<open>next\<close>,
  and the collection afterwards.

  After the first two checks both credentials are present and are strings; the last
  branch (a \<^verbatim>\<open>TypeError\<close> from calling \<^verbatim>\<open>trim\<close> on something else) is there
  for totality. The call \<^verbatim>\<open>fullname.trim()\<close> discards its result, so the full name
  is stored as it was sent.
\<close>

definition register ::
  "(string \<Rightarrow> string) \<Rightarrow> (string \<Rightarrow> string) \<Rightarrow> string \<Rightarrow> body \<Rightarrow> user list
     \<Rightarrow> user_reply response list \<times> user list" where
  "register trim hashPassword newId b us =
     (case find (\<lambda>f. b f = None) [''username'', ''password''] of
        Some missingField \<Rightarrow> ([NextErr 422 (MissingField missingField)], us)
      | None \<Rightarrow>
     (case find (\<lambda>f. b f \<noteq> None \<and> typeof (field b f) \<noteq> TString)
             [''username'', ''password'', ''fullname''] of
        Some nonStringFields \<Rightarrow> ([NextErr 422 (IncorrectFieldType nonStringFields)], us)
      | None \<Rightarrow>
     (case (field b ''username'', field b ''password'') of
        (JStr name, JStr pw) \<Rightarrow>
          (case find (\<lambda>f. untrimmed trim (field b f)) [''username'', ''password''] of
             Some nonTrimmedFields \<Rightarrow>
               ([NextErr 422 (NeedToRemoveWhitespace nonTrimmedFields)], us)
           | None \<Rightarrow>
               (let err = size_err trim b in
                if count_username name us > 0
                then ([Json 422 (ErrorDoc (already_exist name))], us)
                else
                  (let digest = hashPassword pw;
                       newUser = \<lparr>u_id = newId, username = name, password = digest,
                                  fullname = field b ''fullname''\<rparr>
                   in ([Json 201 (UserDoc newUser)], us @ [newUser]))))
      | other \<Rightarrow> ([NextFailure], us))))"

section \<open>Notes (the notes router)\<close>

text \<open>
  Modelled from the spec: the models \<^verbatim>\<open>models/note\<close>, \<^verbatim>\<open>models/folder\<close> and
  \<^verbatim>\<open>models/tag\<close> are not among the sources. A folder and a tag have an identifier,
  a name and an owning user. A note stores the title, content, folder reference and
  tags that the handler hands to the model as they are, its owning user, and the time
  of its last update, which \<^verbatim>\<open>GET /\<close> sorts by. A collection is the list of its
  documents, and a query selects the documents whose fields equal the filter's.

  The identifiers are ObjectIds. Before a query is sent, a value that the filter gives
  for an identifier is cast to one, and the query is refused when the cast fails:
  \<open>castable\<close> says of a value whether it can be cast. (A string from the path of the
  request that \<^verbatim>\<open>ObjectId.isValid\<close> accepts can always be cast.) An identifier is
  taken to be written in one way: a value that can be cast denotes the document whose
  identifier is the same string.

  Before a note is written, its four fields are cast as the schema of the absent model
  says: \<open>schema\<close> gives the values that are stored for a title, a content, a folder
  reference and tags, or \<open>None\<close> when the write is refused. An update writes a field
  that is undefined as \<^verbatim>\<open>null\<close>.
\<close>

record folder =
  f_id :: string
  f_name :: string
  f_userId :: string

record tag =
  t_id :: string
  t_name :: string
  t_userId :: string

record note_doc =
  n_id :: string
  n_title :: jsval
  n_content :: jsval
  n_folderId :: jsval
  n_tags :: jsval
  n_userId :: string
  n_updatedAt :: nat

record db =
  db_notes :: "note_doc list"
  db_folders :: "folder list"
  db_tags :: "tag list"

type_synonym note_schema =
  "jsval \<Rightarrow> jsval \<Rightarrow> jsval \<Rightarrow> jsval \<Rightarrow> (jsval \<times> jsval \<times> jsval \<times> jsval) option"

definition written :: "jsval \<Rightarrow> jsval" where
  "written v = (if v = JUndefined then JNull else v)"

text \<open>
  What the update \<^verbatim>\<open>{ title, content, folderId, tags, userId }\<close> makes of a note, the
  four fields being the values that the schema has cast them to.
\<close>

definition updateNote ::
  "jsval \<Rightarrow> jsval \<Rightarrow> jsval \<Rightarrow> jsval \<Rightarrow> string \<Rightarrow> nat \<Rightarrow> note_doc \<Rightarrow> note_doc" where
  "updateNote t c f g userId now n =
     n\<lparr>n_title := written t, n_content := written c, n_folderId := written f,
       n_tags := written g, n_userId := userId, n_updatedAt := now\<rparr>"

text \<open>
  What the handlers send: the document that \<^verbatim>\<open>Note.create\<close> returned, or notes as
  \<^verbatim>\<open>populate('tags')\<close> returns them, each with the documents of its tags.
\<close>

datatype note_reply =
    Created note_doc
  | NoteDoc note_doc "tag list"
  | NoteDocs "(note_doc \<times> tag list) list"

definition populate :: "tag list \<Rightarrow> note_doc \<Rightarrow> tag list" where
  "populate ts n =
     (case n_tags n of
        JArr xs \<Rightarrow> List.map_filter (\<lambda>x. find (\<lambda>t. JStr (t_id t) = x) ts) xs
      | other \<Rightarrow> [])"

text \<open>
  A promise when it has settled. The two helpers reject with the strings
  \<^verbatim>\<open>'InvalidFolder'\<close> and \<^verbatim>\<open>'InvalidTag'\<close>; \<open>QueryError\<close> is the rejection of a
  query that the data store refuses.
\<close>

datatype rejected = InvalidFolder | InvalidTag | QueryError

datatype promise = Resolved | Rejected rejected

text \<open>A call that returns a promise, or throws before it does.\<close>

datatype call = Threw | Returned promise

definition validateFolderId ::
  "(jsval \<Rightarrow> bool) \<Rightarrow> jsval \<Rightarrow> string \<Rightarrow> folder list \<Rightarrow> promise" where
  "validateFolderId castable folderId userId fs =
     (if \<not> truthy folderId then Resolved
      else if \<not> castable folderId then Rejected QueryError
      else (case find (\<lambda>f. JStr (f_id f) = folderId \<and> f_userId f = userId) fs of
              None \<Rightarrow> Rejected InvalidFolder
            | Some result \<Rightarrow> Resolved))"

text \<open>
  \<^verbatim>\<open>tags.length\<close>: reading a property of \<^verbatim>\<open>null\<close> or \<^verbatim>\<open>undefined\<close> throws
  (\<open>None\<close>); a boolean and a number have no such property.
\<close>

fun js_length :: "jsval \<Rightarrow> jsval option" where
  "js_length JUndefined = None"
| "js_length JNull = None"
| "js_length (JBool b) = Some JUndefined"
| "js_length (JNum n) = Some JUndefined"
| "js_length (JStr s) = Some (JNum (int (length s)))"
| "js_length (JArr xs) = Some (JNum (int (length xs)))"
| "js_length (JObj kvs) =
     Some (case map_of kvs ''length'' of None \<Rightarrow> JUndefined | Some v \<Rightarrow> v)"

text \<open>The default value of a parameter or of a destructured field: \<^verbatim>\<open>tags = []\<close>.\<close>

definition default_tags :: "jsval \<Rightarrow> jsval" where
  "default_tags v = (if v = JUndefined then JArr [] else v)"

definition validateTagIds ::
  "(jsval \<Rightarrow> bool) \<Rightarrow> jsval \<Rightarrow> string \<Rightarrow> tag list \<Rightarrow> call" where
  "validateTagIds castable tags0 userId ts =
     (let tags = default_tags tags0 in
      case js_length tags of
        None \<Rightarrow> Threw
      | Some len \<Rightarrow>
          if \<not> truthy len then Returned Resolved
          else (case tags of
                  JArr xs \<Rightarrow>
                    if \<not> list_all castable xs then Returned (Rejected QueryError)
                    else
                      (let results =
                             filter (\<lambda>t. JStr (t_id t) \<in> set xs \<and> t_userId t = userId) ts
                       in if length xs \<noteq> length results then Returned (Rejected InvalidTag)
                          else Returned Resolved)
                | other \<Rightarrow> Returned (Rejected QueryError)))"

text \<open>
  \<^verbatim>\<open>Promise.all\<close> of the two checks rejects with the rejection that comes first.
  Both queries are under way by then, so which one that is depends on the data store:
  \<open>folderFirst\<close> says whether the folder query answers first.
\<close>

fun promise_all :: "bool \<Rightarrow> promise \<Rightarrow> promise \<Rightarrow> promise" where
  "promise_all folderFirst Resolved Resolved = Resolved"
| "promise_all folderFirst (Rejected r) Resolved = Rejected r"
| "promise_all folderFirst Resolved (Rejected r) = Rejected r"
| "promise_all folderFirst (Rejected r1) (Rejected r2) =
     Rejected (if folderFirst then r1 else r2)"

text \<open>The \<^verbatim>\<open>catch\<close> of the create and update handlers.\<close>

fun catch_rejected :: "rejected \<Rightarrow> note_reply response" where
  "catch_rejected InvalidFolder = NextErr 400 FolderNotValid"
| "catch_rejected InvalidTag = NextErr 400 TagNotValid"
| "catch_rejected QueryError = NextFailure"

text \<open>
  The check of the elements of \<^verbatim>\<open>tags\<close>, guarded by \<^verbatim>\<open>if (tags)\<close>: the elements
  that are not valid identifiers. Calling \<^verbatim>\<open>forEach\<close> or \<^verbatim>\<open>filter\<close> on a truthy
  value that is not an array throws a \<^verbatim>\<open>TypeError\<close> (\<open>None\<close>).
\<close>

definition invalid_tags :: "(jsval \<Rightarrow> bool) \<Rightarrow> jsval \<Rightarrow> jsval list option" where
  "invalid_tags isValid tags =
     (if \<not> truthy tags then Some []
      else (case tags of
              JArr xs \<Rightarrow> Some (filter (\<lambda>t. \<not> isValid t) xs)
            | other \<Rightarrow> None))"

text \<open>
  Queries that change the collection of notes: \<^verbatim>\<open>findByIdAndUpdate\<close> and
  \<^verbatim>\<open>findOneAndRemove\<close> act on the first document that the filter selects.
\<close>

fun update_first ::
  "(note_doc \<Rightarrow> bool) \<Rightarrow> (note_doc \<Rightarrow> note_doc) \<Rightarrow> note_doc list \<Rightarrow> note_doc list" where
  "update_first P f [] = []"
| "update_first P f (n # ns) = (if P n then f n # ns else n # update_first P f ns)"

fun remove_first :: "(note_doc \<Rightarrow> bool) \<Rightarrow> note_doc list \<Rightarrow> note_doc list" where
  "remove_first P [] = []"
| "remove_first P (n # ns) = (if P n then ns else n # remove_first P ns)"

text \<open>
  The handlers take what the surroundings supply as arguments:
  \<open>isValid\<close> is \<^verbatim>\<open>mongoose.Types.ObjectId.isValid\<close>, \<open>castable\<close> and \<open>schema\<close> are
  the casts of the data store, \<open>userId\<close> is \<^verbatim>\<open>req.user.id\<close> of the authenticated
  user, \<open>newId\<close> the identifier that the data store gives a new
  document, \<open>now\<close> the time of the write, and \<open>folderFirst\<close> the order in which
  the two checks answer. Each returns what it did with \<^verbatim>\<open>res\<close> and \<^verbatim>\<open>next\<close>, and
  the data store afterwards.
\<close>

subsection \<open>GET /\<close>

text \<open>
  A query parameter is a string when it is given. \<open>regexp\<close> is \<^verbatim>\<open>new RegExp(_, 'i')\<close>:
  the test of the expression, or \<open>None\<close> when the text is not a regular expression
  and the constructor throws. An expression matches strings only. The query is refused
  when it names a folder or a tag by a text that cannot be cast to an ObjectId.
\<close>

definition present :: "string option \<Rightarrow> bool" where
  "present q = (case q of None \<Rightarrow> False | Some s \<Rightarrow> s \<noteq> [])"

fun re_test :: "(string \<Rightarrow> bool) \<Rightarrow> jsval \<Rightarrow> bool" where
  "re_test re (JStr s) = re s"
| "re_test re v = False"

definition search_filter ::
  "(string \<Rightarrow> (string \<Rightarrow> bool) option) \<Rightarrow> string option \<Rightarrow> (note_doc \<Rightarrow> bool) option" where
  "search_filter regexp searchTerm =
     (case searchTerm of
        None \<Rightarrow> Some (\<lambda>n. True)
      | Some s \<Rightarrow>
          if s = [] then Some (\<lambda>n. True)
          else (case regexp s of
                  None \<Rightarrow> None
                | Some re \<Rightarrow> Some (\<lambda>n. re_test re (n_title n) \<or> re_test re (n_content n))))"

definition folder_filter :: "string option \<Rightarrow> note_doc \<Rightarrow> bool" where
  "folder_filter folderId n = (present folderId \<longrightarrow> n_folderId n = JStr (the folderId))"

definition tag_filter :: "string option \<Rightarrow> note_doc \<Rightarrow> bool" where
  "tag_filter tagId n =
     (present tagId \<longrightarrow>
        (case n_tags n of
           JArr xs \<Rightarrow> JStr (the tagId) \<in> set xs
         | v \<Rightarrow> v = JStr (the tagId)))"

definition uncastable :: "(jsval \<Rightarrow> bool) \<Rightarrow> string option \<Rightarrow> bool" where
  "uncastable castable q = (present q \<and> \<not> castable (JStr (the q)))"

definition get_notes ::
  "(string \<Rightarrow> (string \<Rightarrow> bool) option) \<Rightarrow> (jsval \<Rightarrow> bool) \<Rightarrow> string \<Rightarrow> string option
     \<Rightarrow> string option \<Rightarrow> string option \<Rightarrow> db \<Rightarrow> note_reply response list \<times> db" where
  "get_notes regexp castable userId searchTerm folderId tagId d =
     (case search_filter regexp searchTerm of
        None \<Rightarrow> ([NextFailure], d)
      | Some search \<Rightarrow>
          if uncastable castable folderId \<or> uncastable castable tagId then ([NextFailure], d)
          else
          (let results = filter (\<lambda>n. n_userId n = userId \<and> search n
                                     \<and> folder_filter folderId n \<and> tag_filter tagId n)
                           (db_notes d);
               sorted_results = rev (sort_key n_updatedAt results)
           in ([Json 200 (NoteDocs (map (\<lambda>n. (n, populate (db_tags d) n)) sorted_results))], d)))"

subsection \<open>GET /:id\<close>

definition get_note ::
  "(jsval \<Rightarrow> bool) \<Rightarrow> string \<Rightarrow> string \<Rightarrow> db \<Rightarrow> note_reply response list \<times> db" where
  "get_note isValid userId ident d =
     (if \<not> isValid (JStr ident) then ([NextErr 400 IdNotValid], d)
      else (case find (\<lambda>n. n_id n = ident \<and> n_userId n = userId) (db_notes d) of
              Some result \<Rightarrow> ([Json 200 (NoteDoc result (populate (db_tags d) result))], d)
            | None \<Rightarrow> ([NextNone], d)))"

subsection \<open>POST /\<close>

definition post_note ::
  "(jsval \<Rightarrow> bool) \<Rightarrow> (jsval \<Rightarrow> bool) \<Rightarrow> note_schema \<Rightarrow> bool \<Rightarrow> string \<Rightarrow> nat \<Rightarrow> string
     \<Rightarrow> body \<Rightarrow> db \<Rightarrow> note_reply response list \<times> db" where
  "post_note isValid castable schema folderFirst newId now userId b d =
     (let title = field b ''title'';
          content = field b ''content'';
          folderId = field b ''folderId'';
          tags = default_tags (field b ''tags'')
      in
      if \<not> truthy title then ([NextErr 400 MissingTitle], d)
      else if truthy folderId \<and> \<not> isValid folderId then ([NextErr 400 FolderIdNotValid], d)
      else
        (case invalid_tags isValid tags of
           None \<Rightarrow> ([NextFailure], d)
         | Some bad \<Rightarrow>
             (let early = map (\<lambda>t. NextErr 400 TagsIdNotValid) bad;
                  valFolderIdProm = validateFolderId castable folderId userId (db_folders d)
              in
              case validateTagIds castable tags userId (db_tags d) of
                Threw \<Rightarrow> (early @ [NextFailure], d)
              | Returned valTagIdsProm \<Rightarrow>
                  (case promise_all folderFirst valFolderIdProm valTagIdsProm of
                     Rejected err \<Rightarrow> (early @ [catch_rejected err], d)
                   | Resolved \<Rightarrow>
                       (case schema title content folderId tags of
                          None \<Rightarrow> (early @ [NextFailure], d)
                        | Some (t, c, f, g) \<Rightarrow>
                            (let result = \<lparr>n_id = newId, n_title = t, n_content = c,
                                            n_folderId = f, n_tags = g, n_userId = userId,
                                            n_updatedAt = now\<rparr>
                             in (early @ [Json 201 (Created result)],
                                 d\<lparr>db_notes := db_notes d @ [result]\<rparr>)))))))"

subsection \<open>PUT /:id\<close>

definition put_note ::
  "(jsval \<Rightarrow> bool) \<Rightarrow> (jsval \<Rightarrow> bool) \<Rightarrow> note_schema \<Rightarrow> bool \<Rightarrow> nat \<Rightarrow> string \<Rightarrow> string
     \<Rightarrow> body \<Rightarrow> db \<Rightarrow> note_reply response list \<times> db" where
  "put_note isValid castable schema folderFirst now userId ident b d =
     (let title = field b ''title'';
          content = field b ''content'';
          folderId = field b ''folderId'';
          tags = default_tags (field b ''tags'')
      in
      if \<not> isValid (JStr ident) then ([NextErr 400 IdNotValid], d)
      else if title = JStr [] then ([NextErr 400 MissingTitle], d)
      else if truthy folderId \<and> \<not> isValid folderId then ([NextErr 400 FolderIdNotValid], d)
      else
        (case invalid_tags isValid tags of
           None \<Rightarrow> ([NextFailure], d)
         | Some badIds \<Rightarrow>
             if badIds \<noteq> [] then ([NextErr 400 TagsIdNotValid], d)
             else
               (let valFolderIdProm = validateFolderId castable folderId userId (db_folders d)
                in
                case validateTagIds castable tags userId (db_tags d) of
                  Threw \<Rightarrow> ([NextFailure], d)
                | Returned valTagIdsProm \<Rightarrow>
                    (case promise_all folderFirst valFolderIdProm valTagIdsProm of
                       Rejected err \<Rightarrow> ([catch_rejected err], d)
                     | Resolved \<Rightarrow>
                         (case schema title content folderId tags of
                            None \<Rightarrow> ([NextFailure], d)
                          | Some (t, c, f, g) \<Rightarrow>
                              (case find (\<lambda>n. n_id n = ident) (db_notes d) of
                                 None \<Rightarrow> ([NextNone], d)
                               | Some found \<Rightarrow>
                                   (let result = updateNote t c f g userId now found
                                    in ([Json 200 (NoteDoc result (populate (db_tags d) result))],
                                        d\<lparr>db_notes :=
                                             update_first (\<lambda>n. n_id n = ident)
                                               (updateNote t c f g userId now)
                                               (db_notes d)\<rparr>))))))))"

subsection \<open>DELETE /:id\<close>

definition delete_note ::
  "(jsval \<Rightarrow> bool) \<Rightarrow> string \<Rightarrow> string \<Rightarrow> db \<Rightarrow> note_reply response list \<times> db" where
  "delete_note isValid userId ident d =
     (if \<not> isValid (JStr ident) then ([NextErr 400 IdNotValid], d)
      else (case find (\<lambda>n. n_id n = ident \<and> n_userId n = userId) (db_notes d) of
              Some result \<Rightarrow>
                ([SendStatus 204],
                 d\<lparr>db_notes := remove_first (\<lambda>n. n_id n = ident \<and> n_userId n = userId)
                                  (db_notes d)\<rparr>)
            | None \<Rightarrow> ([NextNone], d)))"

section \<open>Concrete surroundings\<close>

text \<open>
  \<^verbatim>\<open>String.prototype.trim\<close> on strings of 8-bit characters: the white space among
  them is TAB, LF, VT, FF, CR, SPACE and the no-break space.
\<close>

definition is_space :: "char \<Rightarrow> bool" where
  "is_space c =
     (c \<in> set [CHR 0x09, CHR 0x0A, CHR 0x0B, CHR 0x0C, CHR 0x0D, CHR 0x20, CHR 0xA0])"

definition js_trim :: "string \<Rightarrow> string" where
  "js_trim s = rev (dropWhile is_space (rev (dropWhile is_space s)))"

text \<open>
  \<^verbatim>\<open>ObjectId.isValid\<close> of the driver's library, for the runs on concrete requests:
  a number, or a string of 12 characters or of 24 hexadecimal digits.
\<close>

definition is_hex :: "char \<Rightarrow> bool" where
  "is_hex c = (c \<in> set ''0123456789abcdefABCDEF'')"

fun objectIdValid :: "jsval \<Rightarrow> bool" where
  "objectIdValid JUndefined = False"
| "objectIdValid JNull = False"
| "objectIdValid (JBool b) = False"
| "objectIdValid (JNum n) = True"
| "objectIdValid (JStr s) = (length s = 12 \<or> (length s = 24 \<and> list_all is_hex s))"
| "objectIdValid (JArr xs) = False"
| "objectIdValid (JObj kvs) = False"

text \<open>
  The casts of the data store, for the runs on concrete requests, whose titles and
  contents are strings and whose identifiers are strings or numbers. A string of 12
  characters or of 24 hexadecimal digits can be cast to an ObjectId; no other string
  and no number can. The schema stores a title and a content that are strings or absent,
  a folder reference that is absent or can be cast, and an array of tags that can be
  cast, as they are; it refuses a folder reference or a tag that cannot be cast.
\<close>

fun objectIdCastable :: "jsval \<Rightarrow> bool" where
  "objectIdCastable (JStr s) = (length s = 12 \<or> (length s = 24 \<and> list_all is_hex s))"
| "objectIdCastable v = False"

fun text_value :: "jsval \<Rightarrow> bool" where
  "text_value JUndefined = True"
| "text_value JNull = True"
| "text_value (JStr s) = True"
| "text_value v = False"

fun reference_value :: "jsval \<Rightarrow> bool" where
  "reference_value JUndefined = True"
| "reference_value JNull = True"
| "reference_value v = objectIdCastable v"

fun references_value :: "jsval \<Rightarrow> bool" where
  "references_value (JArr xs) = list_all objectIdCastable xs"
| "references_value v = False"

definition sample_schema :: note_schema where
  "sample_schema title content folderId tags =
     (if text_value title \<and> text_value content \<and> reference_value folderId
         \<and> references_value tags
      then Some (title, content, folderId, tags) else None)"

text \<open>A stand-in for the hash of a password, for the runs on concrete requests.\<close>

definition sample_digest :: "string \<Rightarrow> string" where
  "sample_digest pw = ''$2a$10$'' @ rev pw"

text \<open>Two users, a folder and a tag of the first, and a note of the first.\<close>

definition alice :: string where
  "alice = ''user0000000a''"

definition bob :: string where
  "bob = ''user0000000b''"

definition alice_user :: user where
  "alice_user = \<lparr>u_id = alice, username = ''alice'', password = sample_digest ''wonderland'',
                  fullname = JUndefined\<rparr>"

definition alice_folder :: folder where
  "alice_folder = \<lparr>f_id = ''fold00000001'', f_name = ''Work'', f_userId = alice\<rparr>"

definition alice_tag :: tag where
  "alice_tag = \<lparr>t_id = ''tag000000001'', t_name = ''urgent'', t_userId = alice\<rparr>"

definition alice_note :: note_doc where
  "alice_note = \<lparr>n_id = ''note00000001'', n_title = JStr ''Diary'', n_content = JStr ''secret'',
                  n_folderId = JStr ''fold00000001'', n_tags = JArr [JStr ''tag000000001''],
                  n_userId = alice, n_updatedAt = 1\<rparr>"

definition sample_db :: db where
  "sample_db = \<lparr>db_notes = [alice_note], db_folders = [alice_folder], db_tags = [alice_tag]\<rparr>"

section \<open>Properties of responses\<close>

text \<open>The status that a response carries, where the handler itself set one.\<close>

fun status_of :: "'a response \<Rightarrow> nat option" where
  "status_of (NextErr st m) = Some st"
| "status_of NextFailure = None"
| "status_of NextNone = None"
| "status_of (Json st x) = Some st"
| "status_of (SendStatus st) = Some st"



text \<open>The field checks of the registration handler: present, strings, and trimmed.\<close>

definition credentials_accepted :: "(string \<Rightarrow> string) \<Rightarrow> body \<Rightarrow> bool" where
  "credentials_accepted trim b =
     (typeof (field b ''username'') = TString \<and> typeof (field b ''password'') = TString
      \<and> (b ''fullname'' = None \<or> typeof (field b ''fullname'') = TString)
      \<and> \<not> untrimmed trim (field b ''username'') \<and> \<not> untrimmed trim (field b ''password''))"

text \<open>The errors that the field checks of the registration handler pass on.\<close>

fun field_error :: "message \<Rightarrow> bool" where
  "field_error (MissingField f) = True"
| "field_error (IncorrectFieldType f) = True"
| "field_error (NeedToRemoveWhitespace f) = True"
| "field_error m = False"

section \<open>Registration: what the handler can do\<close>

text \<open>
  The handler either refuses the request with status 422 through \<^verbatim>\<open>next\<close>, because a
  field check has failed, or the field checks have passed and the count of the username
  decides.
\<close>

lemma register_cases:
  "(\<exists>m. field_error m \<and> \<not> credentials_accepted trim b
        \<and> register trim h i b us = ([NextErr 422 m], us))
   \<or> register trim h i b us = ([NextFailure], us)
   \<or> (\<exists>name pw. b ''username'' = Some (JStr name) \<and> b ''password'' = Some (JStr pw)
        \<and> credentials_accepted trim b
        \<and> register trim h i b us =
            (if count_username name us > 0 then ([Json 422 (ErrorDoc (already_exist name))], us)
             else ([Json 201 (UserDoc \<lparr>u_id = i, username = name, password = h pw,
                                        fullname = field b ''fullname''\<rparr>)],
                   us @ [\<lparr>u_id = i, username = name, password = h pw,
                            fullname = field b ''fullname''\<rparr>])))"
  by (auto simp: register_def field_def credentials_accepted_def Let_def
           split: option.splits jsval.splits if_splits)

text \<open>The branch for a credential that is not a string is never taken.\<close>

lemma register_no_failure: "register trim h i b us \<noteq> ([NextFailure], us')"
  by (auto simp: register_def field_def Let_def
           split: option.splits jsval.splits if_splits)

lemma register_accepted:
  assumes "credentials_accepted trim b"
  shows "\<exists>name pw. b ''username'' = Some (JStr name) \<and> b ''password'' = Some (JStr pw)
        \<and> register trim h i b us =
            (if count_username name us > 0 then ([Json 422 (ErrorDoc (already_exist name))], us)
             else ([Json 201 (UserDoc \<lparr>u_id = i, username = name, password = h pw,
                                        fullname = field b ''fullname''\<rparr>)],
                   us @ [\<lparr>u_id = i, username = name, password = h pw,
                            fullname = field b ''fullname''\<rparr>]))"
  using assms
  by (auto simp: register_def field_def credentials_accepted_def Let_def
           split: option.splits jsval.splits if_splits)

lemma register_not_accepted:
  assumes "\<not> credentials_accepted trim b"
  shows "\<exists>m. field_error m \<and> register trim h i b us = ([NextErr 422 m], us)"
  using register_cases [of trim b h i us] register_no_failure [of trim h i b us us] assms
  by auto

section \<open>Registration: the claims\<close>

text \<open>
  Claim C2: a registration whose trimmed username is shorter than 1 character, or whose
  trimmed password is shorter than 8 or longer than 72 characters, is rejected with
  status 422 and no user is created.

  The handler computes \<open>tooSmallFields\<close> and \<open>tooLargeFields\<close> and then only builds
  a text from them; it neither calls \<^verbatim>\<open>next\<close> nor returns. The request with the
  free username \<open>carol\<close> and the three-character password \<open>abc\<close> is answered with
  status 201, and the user is stored.
\<close>

theorem register_accepts_short_password:
  "tooSmallFields js_trim [''username'' \<mapsto> JStr ''carol'', ''password'' \<mapsto> JStr ''abc'']
     = Some ''password''
   \<and> register js_trim sample_digest ''user0000000c''
       [''username'' \<mapsto> JStr ''carol'', ''password'' \<mapsto> JStr ''abc''] [alice_user]
     = ([Json 201 (UserDoc \<lparr>u_id = ''user0000000c'', username = ''carol'',
                            password = sample_digest ''abc'', fullname = JUndefined\<rparr>)],
        [alice_user, \<lparr>u_id = ''user0000000c'', username = ''carol'',
                         password = sample_digest ''abc'', fullname = JUndefined\<rparr>])"
  by (simp add: register_def field_def js_trim_def is_space_def count_username_def alice_user_def
                Let_def tooSmallFields_def sizedFields_keys_def sizedFields_min_def)

text \<open>
  Claim C6, as stated: every registration whose username is already in the collection is
  rejected with status 422 and a ValidationError body. It fails where an earlier field
  check answers first: with \<open>alice\<close> registered, the request that names \<open>alice\<close> and
  has no password is refused through \<^verbatim>\<open>next\<close> with the error for the missing field,
  not with the ValidationError object.
\<close>

theorem duplicate_username_body_counterexample:
  "count_username ''alice'' [alice_user] = 1 \<and>
   register js_trim sample_digest ''user0000000c'' [''username'' \<mapsto> JStr ''alice''] [alice_user]
   = ([NextErr 422 (MissingField ''password'')], [alice_user])"
  by (simp add: register_def count_username_def alice_user_def)

text \<open>
  Claim C6, amended: every registration whose username is already in the collection is
  answered with status 422 and creates no user. When the request passes the field checks
  (both credentials present, strings and trimmed, the full name absent or a string), the
  answer is the ValidationError object for that username; otherwise it is the error of
  the field check that failed, passed to \<^verbatim>\<open>next\<close> with status 422. Whatever the
  request, usernames that were unique before the handler ran are unique after it.
\<close>

theorem duplicate_username_rejected:
  assumes "b ''username'' = Some (JStr name)" and "count_username name us > 0"
  shows "snd (register trim hashPassword newId b us) = us
       \<and> (\<exists>r. fst (register trim hashPassword newId b us) = [r] \<and> status_of r = Some 422)
       \<and> (credentials_accepted trim b \<longrightarrow>
            fst (register trim hashPassword newId b us)
              = [Json 422 (ErrorDoc (already_exist name))])
       \<and> (\<not> credentials_accepted trim b \<longrightarrow>
            (\<exists>m. field_error m
                \<and> fst (register trim hashPassword newId b us) = [NextErr 422 m]))
       \<and> (distinct (map username us) \<longrightarrow>
            distinct (map username (snd (register trim hashPassword newId b' us))))"
proof -
  have taken: "snd (register trim hashPassword newId b us) = us
      \<and> (\<exists>r. fst (register trim hashPassword newId b us) = [r] \<and> status_of r = Some 422)"
    using register_cases [of trim b hashPassword newId us] assms
          register_no_failure [of trim hashPassword newId b us us]
    by auto
  have body: "credentials_accepted trim b \<longrightarrow>
      fst (register trim hashPassword newId b us) = [Json 422 (ErrorDoc (already_exist name))]"
    using register_accepted [of trim b hashPassword newId us] assms by auto
  have early: "\<not> credentials_accepted trim b \<longrightarrow>
      (\<exists>m. field_error m \<and> fst (register trim hashPassword newId b us) = [NextErr 422 m])"
    using register_not_accepted [of trim b hashPassword newId us] by auto
  have uniq: "distinct (map username us) \<longrightarrow>
      distinct (map username (snd (register trim hashPassword newId b' us)))"
    using register_cases [of trim b' hashPassword newId us]
    by (auto simp: count_username_def filter_empty_conv)
  from taken body early uniq show ?thesis by blast
qed

theorem duplicate_username_rejected_witness:
  "snd (register js_trim sample_digest ''user0000000c''
          [''username'' \<mapsto> JStr ''alice'', ''password'' \<mapsto> JStr ''longenough''] [alice_user])
     = [alice_user]
   \<and> fst (register js_trim sample_digest ''user0000000c''
          [''username'' \<mapsto> JStr ''alice'', ''password'' \<mapsto> JStr ''longenough''] [alice_user])
     = [Json 422 (ErrorDoc (already_exist ''alice''))]
   \<and> (\<exists>m. field_error m
        \<and> fst (register js_trim sample_digest ''user0000000c''
                 [''username'' \<mapsto> JStr ''alice'', ''password'' \<mapsto> JStr '' longenough'']
                 [alice_user])
           = [NextErr 422 m])
   \<and> distinct (map username (snd (register js_trim sample_digest ''user0000000c''
          [''username'' \<mapsto> JStr ''carol'', ''password'' \<mapsto> JStr ''longenough''] [alice_user])))"
proof -
  let ?b = "[''username'' \<mapsto> JStr ''alice'', ''password'' \<mapsto> JStr ''longenough'']"
  let ?c = "[''username'' \<mapsto> JStr ''alice'', ''password'' \<mapsto> JStr '' longenough'']"
  let ?b' = "[''username'' \<mapsto> JStr ''carol'', ''password'' \<mapsto> JStr ''longenough'']"
  have name: "?b ''username'' = Some (JStr ''alice'')" by simp
  have name': "?c ''username'' = Some (JStr ''alice'')" by simp
  have taken: "count_username ''alice'' [alice_user] > 0"
    by (simp add: count_username_def alice_user_def)
  have ok: "credentials_accepted js_trim ?b"
    by (simp add: credentials_accepted_def field_def js_trim_def is_space_def)
  have no: "\<not> credentials_accepted js_trim ?c"
    by (simp add: credentials_accepted_def field_def js_trim_def is_space_def)
  have uniq: "distinct (map username [alice_user])" by simp
  have first: "snd (register js_trim sample_digest ''user0000000c'' ?b [alice_user]) = [alice_user]
      \<and> fst (register js_trim sample_digest ''user0000000c'' ?b [alice_user])
          = [Json 422 (ErrorDoc (already_exist ''alice''))]
      \<and> distinct (map username
           (snd (register js_trim sample_digest ''user0000000c'' ?b' [alice_user])))"
    using duplicate_username_rejected [where b = "?b" and name = "''alice''"
            and us = "[alice_user]" and trim = js_trim and hashPassword = sample_digest
            and newId = "''user0000000c''" and b' = "?b'"]
          name taken ok uniq
    by blast
  have second: "\<exists>m. field_error m
      \<and> fst (register js_trim sample_digest ''user0000000c'' ?c [alice_user]) = [NextErr 422 m]"
    using duplicate_username_rejected [where b = "?c" and name = "''alice''"
            and us = "[alice_user]" and trim = js_trim and hashPassword = sample_digest
            and newId = "''user0000000c''" and b' = "?b'"]
          name' taken no
    by blast
  from first second show ?thesis by blast
qed

text \<open>
  Claim C7: for every successful registration, the password stored for the new user is
  the digest that \<^verbatim>\<open>User.hashPassword\<close> produced from the submitted password, never
  the plain password itself.

  A registration succeeds when the handler answers with status 201. The stored password
  is then the digest of the submitted one, so it is the plain password only if the hash
  function returned its argument unchanged.
\<close>

theorem stored_password_is_digest:
  assumes "b ''password'' = Some (JStr pw)"
      and "fst (register trim hashPassword newId b us) = [Json 201 reply]"
  shows "\<exists>u. reply = UserDoc u \<and> snd (register trim hashPassword newId b us) = us @ [u]
           \<and> password u = hashPassword pw
           \<and> (hashPassword pw \<noteq> pw \<longrightarrow> password u \<noteq> pw)"
  using register_cases [of trim b hashPassword newId us] assms
  by (auto split: if_splits)

theorem stored_password_is_digest_witness:
  "\<exists>u. snd (register js_trim sample_digest ''user0000000c''
          [''username'' \<mapsto> JStr ''carol'', ''password'' \<mapsto> JStr ''longenough''] [alice_user])
        = [alice_user] @ [u]
      \<and> password u = sample_digest ''longenough'' \<and> password u \<noteq> ''longenough''"
proof -
  let ?b = "[''username'' \<mapsto> JStr ''carol'', ''password'' \<mapsto> JStr ''longenough'']"
  let ?u = "\<lparr>u_id = ''user0000000c'', username = ''carol'',
             password = sample_digest ''longenough'', fullname = JUndefined\<rparr>"
  have pw: "?b ''password'' = Some (JStr ''longenough'')" by simp
  have ok: "fst (register js_trim sample_digest ''user0000000c'' ?b [alice_user])
              = [Json 201 (UserDoc ?u)]"
    by (simp add: register_def field_def js_trim_def is_space_def count_username_def
                  alice_user_def Let_def)
  have ne: "sample_digest ''longenough'' \<noteq> ''longenough''"
    by (simp add: sample_digest_def)
  show ?thesis
    using stored_password_is_digest [OF pw ok] ne by auto
qed

text \<open>
  Claim C8: every registration whose username or password has leading or trailing white
  space (the field differs from its trimmed form) is rejected with status 422, and no
  user is created.

  The trimmed form is that of \<^verbatim>\<open>String.prototype.trim\<close>, whatever white space it
  strips: the statement holds for every function \<open>trim\<close>.
\<close>

theorem untrimmed_credentials_rejected:
  assumes "(\<exists>s. b ''username'' = Some (JStr s) \<and> trim s \<noteq> s)
         \<or> (\<exists>s. b ''password'' = Some (JStr s) \<and> trim s \<noteq> s)"
  shows "\<exists>m. register trim hashPassword newId b us = ([NextErr 422 m], us)"
  using assms
  by (auto simp: register_def field_def split: option.splits jsval.splits if_splits)

theorem untrimmed_credentials_rejected_witness:
  "(\<exists>m. register js_trim sample_digest ''user0000000c''
          [''username'' \<mapsto> JStr ''carol'', ''password'' \<mapsto> JStr ''longenough ''] [alice_user]
        = ([NextErr 422 m], [alice_user]))
   \<and> (\<exists>m. register js_trim sample_digest ''user0000000c''
          [''username'' \<mapsto> JStr (CHR 0xA0 # ''carol''), ''password'' \<mapsto> JStr ''longenough'']
          [alice_user]
        = ([NextErr 422 m], [alice_user]))"
proof -
  let ?b = "[''username'' \<mapsto> JStr ''carol'', ''password'' \<mapsto> JStr ''longenough '']"
  let ?c = "[''username'' \<mapsto> JStr (CHR 0xA0 # ''carol''), ''password'' \<mapsto> JStr ''longenough'']"
  have "\<exists>s. ?b ''password'' = Some (JStr s) \<and> js_trim s \<noteq> s"
    by (simp add: js_trim_def is_space_def)
  then have b: "(\<exists>s. ?b ''username'' = Some (JStr s) \<and> js_trim s \<noteq> s)
           \<or> (\<exists>s. ?b ''password'' = Some (JStr s) \<and> js_trim s \<noteq> s)" ..
  have "\<exists>s. ?c ''username'' = Some (JStr s) \<and> js_trim s \<noteq> s"
    by (simp add: js_trim_def is_space_def)
  then have c: "(\<exists>s. ?c ''username'' = Some (JStr s) \<and> js_trim s \<noteq> s)
           \<or> (\<exists>s. ?c ''password'' = Some (JStr s) \<and> js_trim s \<noteq> s)" ..
  from untrimmed_credentials_rejected [OF b] untrimmed_credentials_rejected [OF c]
  show ?thesis by blast
qed

section \<open>Notes: the tag check counts documents\<close>

text \<open>
  The identifiers of the tags that the query of \<open>validateTagIds\<close> returns are distinct
  and are among the submitted ones, so there are fewer of them than submitted elements
  as soon as one element matches no tag of the user, or an element occurs twice.
\<close>

lemma results_ids_distinct:
  assumes "distinct (map t_id ts)"
  shows "distinct (map (\<lambda>t. JStr (t_id t))
           (filter (\<lambda>t. JStr (t_id t) \<in> set xs \<and> t_userId t = u) ts))"
proof -
  have "distinct (map t_id (filter (\<lambda>t. JStr (t_id t) \<in> set xs \<and> t_userId t = u) ts))"
    using assms by (rule distinct_map_filter)
  then have "distinct (map JStr (map t_id
               (filter (\<lambda>t. JStr (t_id t) \<in> set xs \<and> t_userId t = u) ts)))"
    by (simp add: distinct_map inj_on_def)
  then show ?thesis by (simp add: comp_def)
qed

lemma results_card:
  assumes "distinct (map t_id ts)"
  shows "length (filter (\<lambda>t. JStr (t_id t) \<in> set xs \<and> t_userId t = u) ts)
       = card ((\<lambda>t. JStr (t_id t)) ` set (filter (\<lambda>t. JStr (t_id t) \<in> set xs \<and> t_userId t = u) ts))"
  using distinct_card [OF results_ids_distinct [OF assms, of xs u]] by simp


lemma results_lt_duplicate:
  assumes d: "distinct (map t_id ts)" and dup: "\<not> distinct xs"
  shows "length (filter (\<lambda>t. JStr (t_id t) \<in> set xs \<and> t_userId t = u) ts) < length xs"
proof -
  let ?R = "filter (\<lambda>t. JStr (t_id t) \<in> set xs \<and> t_userId t = u) ts"
  have sub: "(\<lambda>t. JStr (t_id t)) ` set ?R \<subseteq> set xs" by auto
  have "length ?R = card ((\<lambda>t. JStr (t_id t)) ` set ?R)"
    by (rule results_card [OF d])
  also have "\<dots> \<le> card (set xs)"
    by (rule card_mono [OF _ sub]) simp
  also have "\<dots> < length xs"
    using dup card_distinct [of xs] card_length [of xs] by (cases "card (set xs) = length xs") auto
  finally show ?thesis .
qed

lemma validateTagIds_array:
  "validateTagIds castable (JArr xs) u ts =
     Returned (if xs = [] then Resolved
               else if \<not> list_all castable xs then Rejected QueryError
               else if length xs \<noteq> length (filter (\<lambda>t. JStr (t_id t) \<in> set xs \<and> t_userId t = u) ts)
                    then Rejected InvalidTag else Resolved)"
  by (simp add: validateTagIds_def default_tags_def Let_def)

lemma validateTagIds_rejects:
  assumes "xs \<noteq> []" and "list_all castable xs"
      and "length (filter (\<lambda>t. JStr (t_id t) \<in> set xs \<and> t_userId t = u) ts) < length xs"
  shows "validateTagIds castable (JArr xs) u ts = Returned (Rejected InvalidTag)"
  using assms by (simp add: validateTagIds_array)







lemma catch_rejected_not_title: "catch_rejected r \<noteq> NextErr 400 MissingTitle"
  by (cases r) auto

section \<open>Notes: requests that are refused\<close>





section \<open>Notes: queries filtered by the owner\<close>

lemma get_notes_owned:
  assumes "get_notes regexp castable userId searchTerm folderId tagId d
             = ([Json st (NoteDocs rs)], d')"
  shows "\<forall>r\<in>set rs. n_userId (fst r) = userId"
  using assms
  by (auto simp: get_notes_def Let_def split: option.splits if_splits)

lemma get_note_owned:
  assumes "get_note isValid userId ident d = ([Json st (NoteDoc n ts)], d')"
  shows "n_userId n = userId \<and> n_id n = ident \<and> d' = d"
  using assms
  by (auto simp: get_note_def find_Some_iff split: option.splits if_splits)

lemma remove_first_others:
  assumes "\<And>n. P n \<Longrightarrow> \<not> Q n"
  shows "filter Q (remove_first P ns) = filter Q ns"
  using assms by (induction ns) auto

lemma delete_note_others:
  "filter (\<lambda>n. n_userId n \<noteq> userId) (db_notes (snd (delete_note isValid userId ident d)))
     = filter (\<lambda>n. n_userId n \<noteq> userId) (db_notes d)"
proof -
  have "filter (\<lambda>n. n_userId n \<noteq> userId)
          (remove_first (\<lambda>n. n_id n = ident \<and> n_userId n = userId) (db_notes d))
        = filter (\<lambda>n. n_userId n \<noteq> userId) (db_notes d)"
    by (rule remove_first_others) simp
  then show ?thesis
    by (simp add: delete_note_def split: option.splits)
qed

section \<open>Notes: what an update writes\<close>

text \<open>
  After \<open>update_first\<close>, the first document that the filter selects is the changed one,
  as long as the change keeps it selected; the documents that the filter does not
  select are as before.
\<close>

lemma find_update_first:
  assumes "find P ns = Some found" and "P (f found)"
  shows "find P (update_first P f ns) = Some (f found)"
  using assms by (induction ns) (auto split: if_splits)

lemma update_first_others:
  assumes "\<And>n. P n \<Longrightarrow> \<not> Q n" and "\<And>n. P n \<Longrightarrow> \<not> Q (f n)"
  shows "filter Q (update_first P f ns) = filter Q ns"
  using assms by (induction ns) auto

section \<open>Notes: the claims\<close>

lemmas sample_defs = sample_db_def alice_note_def alice_folder_def alice_tag_def alice_def bob_def

lemmas handler_defs = field_def default_tags_def invalid_tags_def validateFolderId_def
  validateTagIds_def sample_schema_def populate_def updateNote_def written_def Let_def
  List.map_filter_def

text \<open>
  Claim C1: every read or mutation of a note (fetch one, list, update, delete) queries the
  data store with the authenticated user's id in the filter, so that a user never reads
  or changes a note of another user; in particular, the update affects only a note whose
  owner is the requester.

  The handlers of \<^verbatim>\<open>GET /\<close>, \<^verbatim>\<open>GET /:id\<close> and \<^verbatim>\<open>DELETE /:id\<close> filter by
  \<open>userId\<close> (the lemmas on the owner above). The handler of \<^verbatim>\<open>PUT /:id\<close> calls
  \<^verbatim>\<open>findByIdAndUpdate\<close> with the identifier alone. With a note of \<open>alice\<close> in the
  store, \<open>bob\<close> cannot fetch it, but his update of it is carried out: the note gets
  his title and becomes his.
\<close>

theorem put_updates_foreign_note:
  "n_userId alice_note = alice \<and> alice \<noteq> bob
   \<and> get_note objectIdValid bob ''note00000001'' sample_db = ([NextNone], sample_db)
   \<and> put_note objectIdValid objectIdCastable sample_schema True 7 bob ''note00000001''
       [''title'' \<mapsto> JStr ''mine''] sample_db
     = ([Json 200 (NoteDoc \<lparr>n_id = ''note00000001'', n_title = JStr ''mine'',
                             n_content = JNull, n_folderId = JNull, n_tags = JArr [],
                             n_userId = bob, n_updatedAt = 7\<rparr> [])],
        sample_db\<lparr>db_notes := [\<lparr>n_id = ''note00000001'', n_title = JStr ''mine'',
                             n_content = JNull, n_folderId = JNull, n_tags = JArr [],
                             n_userId = bob, n_updatedAt = 7\<rparr>]\<rparr>)"
  by (simp add: put_note_def get_note_def sample_defs handler_defs)

text \<open>
  Claim C3, as stated: every create or update request whose \<open>folderId\<close>, or any element
  of whose \<open>tags\<close> array, is not a syntactically valid ObjectId is answered with status
  400 and writes no note. It fails for a \<open>folderId\<close> that JavaScript takes for false:
  the check is guarded by \<^verbatim>\<open>folderId &&\<close>, and \<open>validateFolderId\<close> resolves at once
  for such a value. The empty string is no valid ObjectId; the create request that
  carries it reaches \<^verbatim>\<open>Note.create\<close>, which refuses it, and the handler passes that
  error on, which carries no status.
\<close>

theorem post_empty_folderId_counterexample:
  "\<not> objectIdValid (JStr '''')
   \<and> post_note objectIdValid objectIdCastable sample_schema True ''note00000002'' 7 alice
       [''title'' \<mapsto> JStr ''t'', ''folderId'' \<mapsto> JStr ''''] sample_db
     = ([NextFailure], sample_db)"
  by (simp add: post_note_def handler_defs)

text \<open>
  Claim C3, amended: every create or update request whose \<open>folderId\<close> is truthy and not
  a syntactically valid ObjectId, and every update request whose \<open>tags\<close> array has an
  element that is not one, is refused with status 400, by one call of \<^verbatim>\<open>next\<close>, and
  no note is created or updated. The error is that of the first check that fails, in the
  order of the handler. (What the create handler does with a malformed element of
  \<open>tags\<close> is not part of the statement.)
\<close>

theorem malformed_reference_rejected:
  assumes bad: "(truthy (field b ''folderId'') \<and> \<not> isValid (field b ''folderId''))
              \<or> (\<exists>xs. field b ''tags'' = JArr xs \<and> (\<exists>x\<in>set xs. \<not> isValid x))"
  shows "(truthy (field b ''folderId'') \<and> \<not> isValid (field b ''folderId'') \<longrightarrow>
            post_note isValid castable schema ff newId now userId b d
              = ([NextErr 400 (if truthy (field b ''title'') then FolderIdNotValid
                               else MissingTitle)], d))
       \<and> put_note isValid castable schema ff now userId ident b d
           = ([NextErr 400
                (if \<not> isValid (JStr ident) then IdNotValid
                 else if field b ''title'' = JStr [] then MissingTitle
                 else if truthy (field b ''folderId'') \<and> \<not> isValid (field b ''folderId'')
                      then FolderIdNotValid
                 else TagsIdNotValid)], d)"
proof -
  have post: "truthy (field b ''folderId'') \<and> \<not> isValid (field b ''folderId'') \<longrightarrow>
            post_note isValid castable schema ff newId now userId b d
              = ([NextErr 400 (if truthy (field b ''title'') then FolderIdNotValid
                               else MissingTitle)], d)"
    by (simp add: post_note_def Let_def)
  have tags: "(truthy (field b ''folderId'') \<and> \<not> isValid (field b ''folderId''))
      \<or> (\<exists>bad. bad \<noteq> [] \<and> invalid_tags isValid (default_tags (field b ''tags'')) = Some bad)"
    using bad by (auto simp: invalid_tags_def default_tags_def filter_empty_conv)
  have put: "put_note isValid castable schema ff now userId ident b d
           = ([NextErr 400
                (if \<not> isValid (JStr ident) then IdNotValid
                 else if field b ''title'' = JStr [] then MissingTitle
                 else if truthy (field b ''folderId'') \<and> \<not> isValid (field b ''folderId'')
                      then FolderIdNotValid
                 else TagsIdNotValid)], d)"
    using tags by (auto simp: put_note_def Let_def)
  from post put show ?thesis by blast
qed

theorem malformed_reference_rejected_witness:
  "post_note objectIdValid objectIdCastable sample_schema True ''note00000002'' 7 alice
       [''title'' \<mapsto> JStr ''t'', ''folderId'' \<mapsto> JStr ''zz''] sample_db
     = ([NextErr 400 FolderIdNotValid], sample_db)
   \<and> put_note objectIdValid objectIdCastable sample_schema True 7 alice ''note00000001''
       [''title'' \<mapsto> JStr ''t'', ''folderId'' \<mapsto> JStr ''zz''] sample_db
     = ([NextErr 400 FolderIdNotValid], sample_db)
   \<and> put_note objectIdValid objectIdCastable sample_schema True 7 alice ''note00000001''
       [''title'' \<mapsto> JStr ''t'', ''tags'' \<mapsto> JArr [JStr ''zz'']] sample_db
     = ([NextErr 400 TagsIdNotValid], sample_db)"
proof -
  let ?b = "[''title'' \<mapsto> JStr ''t'', ''folderId'' \<mapsto> JStr ''zz'']"
  let ?c = "[''title'' \<mapsto> JStr ''t'', ''tags'' \<mapsto> JArr [JStr ''zz'']]"
  have fb: "truthy (field ?b ''folderId'') \<and> \<not> objectIdValid (field ?b ''folderId'')"
    by (simp add: field_def)
  have tb: "field ?b ''title'' = JStr ''t''" by (simp add: field_def)
  have fc: "\<not> truthy (field ?c ''folderId'')" by (simp add: field_def)
  have tc: "field ?c ''title'' = JStr ''t''" by (simp add: field_def)
  have bad_c: "\<exists>xs. field ?c ''tags'' = JArr xs \<and> (\<exists>x\<in>set xs. \<not> objectIdValid x)"
    by (simp add: field_def)
  have ident: "objectIdValid (JStr ''note00000001'')" by simp
  have first: "post_note objectIdValid objectIdCastable sample_schema True ''note00000002'' 7
                 alice ?b sample_db = ([NextErr 400 FolderIdNotValid], sample_db)
             \<and> put_note objectIdValid objectIdCastable sample_schema True 7 alice
                 ''note00000001'' ?b sample_db = ([NextErr 400 FolderIdNotValid], sample_db)"
    using malformed_reference_rejected [where isValid = objectIdValid and b = "?b"
            and castable = objectIdCastable and schema = sample_schema and ff = True
            and newId = "''note00000002''" and now = 7 and userId = alice
            and ident = "''note00000001''" and d = sample_db] fb tb ident
    by (simp del: objectIdValid.simps)
  have second: "put_note objectIdValid objectIdCastable sample_schema True 7 alice
                 ''note00000001'' ?c sample_db = ([NextErr 400 TagsIdNotValid], sample_db)"
    using malformed_reference_rejected [where isValid = objectIdValid and b = "?c"
            and castable = objectIdCastable and schema = sample_schema and ff = True
            and newId = "''note00000002''" and now = 7 and userId = alice
            and ident = "''note00000001''" and d = sample_db] bad_c fc tc ident
    by (simp del: objectIdValid.simps)
  from first second show ?thesis by blast
qed




text \<open>
  Claim C5, as stated: every fetch-one or delete request that names a note id which does
  not exist or belongs to another user gets the not-found outcome. It fails for an id
  that is no valid ObjectId: both handlers test the id first, and answer an invalid one
  with status 400, whatever the store holds.
\<close>

theorem invalid_id_counterexample:
  "''nope'' \<notin> set (map n_id (db_notes sample_db))
   \<and> get_note objectIdValid bob ''nope'' sample_db = ([NextErr 400 IdNotValid], sample_db)
   \<and> delete_note objectIdValid bob ''nope'' sample_db = ([NextErr 400 IdNotValid], sample_db)"
  by (simp add: get_note_def delete_note_def sample_defs)

text \<open>
  Claim C5, amended: for every fetch-one or delete request that names a note id which
  does not exist or belongs to another user, the outcome does not tell the two cases
  apart and the store is unchanged: it is the not-found outcome (\<^verbatim>\<open>next()\<close>) when the
  id is a syntactically valid ObjectId, and the error of status 400 for an invalid id
  otherwise.
\<close>

theorem foreign_note_not_found:
  assumes "\<not> (\<exists>n\<in>set (db_notes d). n_id n = ident \<and> n_userId n = userId)"
  shows "get_note isValid userId ident d
           = ([if isValid (JStr ident) then NextNone else NextErr 400 IdNotValid], d)
       \<and> delete_note isValid userId ident d
           = ([if isValid (JStr ident) then NextNone else NextErr 400 IdNotValid], d)"
proof -
  have "find (\<lambda>n. n_id n = ident \<and> n_userId n = userId) (db_notes d) = None"
    using assms by (simp add: find_None_iff)
  then show ?thesis by (simp add: get_note_def delete_note_def)
qed

theorem foreign_note_not_found_witness:
  "get_note objectIdValid bob ''note00000001'' sample_db = ([NextNone], sample_db)
   \<and> delete_note objectIdValid bob ''note00000001'' sample_db = ([NextNone], sample_db)"
proof -
  have foreign: "\<not> (\<exists>n\<in>set (db_notes sample_db). n_id n = ''note00000001'' \<and> n_userId n = bob)"
    by (simp add: sample_defs)
  have ok: "objectIdValid (JStr ''note00000001'')" by simp
  show ?thesis
    using foreign_note_not_found [OF foreign, of objectIdValid] ok by simp
qed

text \<open>
  Claim C9: there are create and update requests whose \<open>tags\<close> array lists the same
  valid tag of the requester more than once and which the tag check rejects with the
  error for an invalid tag (status 400), because it compares the length of the submitted
  array with the number of distinct tags found.

  This holds for every such request that has a title and names no folder, in a data store
  whose tags have distinct identifiers; the witness is one of them.
\<close>

theorem duplicate_tag_rejected:
  assumes uniq: "distinct (map t_id (db_tags d))"
      and tags: "field b ''tags'' = JArr xs"
      and dup: "\<not> distinct xs"
      and own: "\<forall>x\<in>set xs. isValid x \<and> castable x
                  \<and> (\<exists>t\<in>set (db_tags d). JStr (t_id t) = x \<and> t_userId t = userId)"
      and title: "truthy (field b ''title'')"
      and ident: "isValid (JStr ident)"
      and folder: "\<not> truthy (field b ''folderId'')"
  shows "post_note isValid castable schema ff newId now userId b d
           = ([NextErr 400 TagNotValid], d)
       \<and> put_note isValid castable schema ff now userId ident b d
           = ([NextErr 400 TagNotValid], d)"
proof -
  have ne: "xs \<noteq> []" using dup by auto
  have cast: "list_all castable xs" using own by (simp add: list_all_iff)
  have "length (filter (\<lambda>t. JStr (t_id t) \<in> set xs \<and> t_userId t = userId) (db_tags d))
          < length xs"
    by (rule results_lt_duplicate [OF uniq dup])
  then have rej: "validateTagIds castable (JArr xs) userId (db_tags d)
                    = Returned (Rejected InvalidTag)"
    using ne cast by (simp add: validateTagIds_rejects)
  have good: "filter (\<lambda>t. \<not> isValid t) xs = []"
    using own by (simp add: filter_empty_conv)
  have t: "field b ''title'' \<noteq> JStr []" using title by auto
  show ?thesis
    using tags rej good title t ident folder
    by (simp add: post_note_def put_note_def Let_def invalid_tags_def default_tags_def
                  validateFolderId_def)
qed

theorem duplicate_tag_rejected_witness:
  "post_note objectIdValid objectIdCastable sample_schema True ''note00000002'' 7 alice
       [''title'' \<mapsto> JStr ''t'',
        ''tags'' \<mapsto> JArr [JStr ''tag000000001'', JStr ''tag000000001'']] sample_db
     = ([NextErr 400 TagNotValid], sample_db)
   \<and> put_note objectIdValid objectIdCastable sample_schema True 7 alice ''note00000001''
       [''title'' \<mapsto> JStr ''t'',
        ''tags'' \<mapsto> JArr [JStr ''tag000000001'', JStr ''tag000000001'']] sample_db
     = ([NextErr 400 TagNotValid], sample_db)"
proof -
  let ?xs = "[JStr ''tag000000001'', JStr ''tag000000001'']"
  let ?b = "[''title'' \<mapsto> JStr ''t'', ''tags'' \<mapsto> JArr ?xs]"
  have uniq: "distinct (map t_id (db_tags sample_db))"
    by (simp add: sample_defs)
  have tags: "field ?b ''tags'' = JArr ?xs" by (simp add: field_def)
  have dup: "\<not> distinct ?xs" by simp
  have own: "\<forall>x\<in>set ?xs. objectIdValid x \<and> objectIdCastable x
                  \<and> (\<exists>t\<in>set (db_tags sample_db). JStr (t_id t) = x \<and> t_userId t = alice)"
    by (simp add: sample_defs)
  have title: "truthy (field ?b ''title'')" by (simp add: field_def)
  have ident: "objectIdValid (JStr ''note00000001'')" by simp
  have folder: "\<not> truthy (field ?b ''folderId'')" by (simp add: field_def)
  show ?thesis
    by (rule duplicate_tag_rejected [OF uniq tags dup own title ident folder])
qed

text \<open>
  Claim C10: an update request whose body has no \<open>title\<close> field passes the check of the
  title, and the update goes ahead; only a title that is the empty string is rejected
  with status 400.

  With no \<open>title\<close> in the body and the other checks passed (a valid id, the folder and
  tags accepted by the checks, the fields accepted by the schema), the handler updates
  the note with that id: it answers with the changed note, whose title is \<^verbatim>\<open>null\<close>,
  and the store then holds that note under the id, every other note being as before;
  when there is no note with the id, it hands on to the not-found handler. For any
  request, the handler answers with the error for a missing title exactly when the id
  is valid and the title is the empty string.
\<close>

theorem put_without_title_proceeds:
  assumes omitted: "b ''title'' = None"
      and ident: "isValid (JStr ident)"
      and folder: "\<not> (truthy (field b ''folderId'') \<and> \<not> isValid (field b ''folderId''))"
      and tags: "invalid_tags isValid (default_tags (field b ''tags'')) = Some []"
      and vf: "validateFolderId castable (field b ''folderId'') userId (db_folders d) = Resolved"
      and vt: "validateTagIds castable (default_tags (field b ''tags'')) userId (db_tags d)
                 = Returned Resolved"
      and cast: "schema JUndefined (field b ''content'') (field b ''folderId'')
                   (default_tags (field b ''tags'')) = Some (JUndefined, c, f, g)"
  shows "(\<forall>found. find (\<lambda>n. n_id n = ident) (db_notes d) = Some found \<longrightarrow>
            put_note isValid castable schema ff now userId ident b d
              = ([Json 200 (NoteDoc (updateNote JUndefined c f g userId now found)
                    (populate (db_tags d) (updateNote JUndefined c f g userId now found)))],
                 d\<lparr>db_notes := update_first (\<lambda>n. n_id n = ident)
                                  (updateNote JUndefined c f g userId now) (db_notes d)\<rparr>)
            \<and> n_title (updateNote JUndefined c f g userId now found) = JNull
            \<and> find (\<lambda>n. n_id n = ident)
                 (db_notes (snd (put_note isValid castable schema ff now userId ident b d)))
                = Some (updateNote JUndefined c f g userId now found)
            \<and> filter (\<lambda>n. n_id n \<noteq> ident)
                 (db_notes (snd (put_note isValid castable schema ff now userId ident b d)))
                = filter (\<lambda>n. n_id n \<noteq> ident) (db_notes d))
       \<and> (find (\<lambda>n. n_id n = ident) (db_notes d) = None \<longrightarrow>
            put_note isValid castable schema ff now userId ident b d = ([NextNone], d))
       \<and> (fst (put_note isValid castable schema ff now userId ident b' d')
              = [NextErr 400 MissingTitle]
            \<longleftrightarrow> isValid (JStr ident) \<and> field b' ''title'' = JStr [])"
proof -
  let ?upd = "updateNote JUndefined c f g userId now"
  have t: "field b ''title'' = JUndefined" using omitted by (simp add: field_def)
  have run: "put_note isValid castable schema ff now userId ident b d =
     (case find (\<lambda>n. n_id n = ident) (db_notes d) of
        None \<Rightarrow> ([NextNone], d)
      | Some found \<Rightarrow>
         ([Json 200 (NoteDoc (?upd found) (populate (db_tags d) (?upd found)))],
          d\<lparr>db_notes := update_first (\<lambda>n. n_id n = ident) ?upd (db_notes d)\<rparr>))"
    using t ident folder tags vf vt cast
    by (auto simp: put_note_def Let_def split: option.splits)
  have keeps: "\<And>n. n_id (?upd n) = n_id n" by (simp add: updateNote_def)
  have null: "\<And>n. n_title (?upd n) = JNull" by (simp add: updateNote_def written_def)
  have stored: "\<And>found. find (\<lambda>n. n_id n = ident) (db_notes d) = Some found \<Longrightarrow>
      find (\<lambda>n. n_id n = ident) (update_first (\<lambda>n. n_id n = ident) ?upd (db_notes d))
        = Some (?upd found)"
  proof -
    fix found
    assume found: "find (\<lambda>n. n_id n = ident) (db_notes d) = Some found"
    then have "n_id found = ident" by (auto simp: find_Some_iff)
    then have "n_id (?upd found) = ident" by (simp add: keeps)
    with found show "find (\<lambda>n. n_id n = ident)
        (update_first (\<lambda>n. n_id n = ident) ?upd (db_notes d)) = Some (?upd found)"
      by (rule find_update_first)
  qed
  have others: "filter (\<lambda>n. n_id n \<noteq> ident)
                  (update_first (\<lambda>n. n_id n = ident) ?upd (db_notes d))
                = filter (\<lambda>n. n_id n \<noteq> ident) (db_notes d)"
    by (rule update_first_others) (simp_all add: keeps)
  have only: "fst (put_note isValid castable schema ff now userId ident b' d')
                = [NextErr 400 MissingTitle]
            \<longleftrightarrow> isValid (JStr ident) \<and> field b' ''title'' = JStr []"
    by (auto simp: put_note_def Let_def catch_rejected_not_title
             split: option.splits call.splits promise.splits if_splits)
  from run null stored others only show ?thesis by (auto split: option.splits)
qed

theorem put_without_title_proceeds_witness:
  "put_note objectIdValid objectIdCastable sample_schema True 7 alice ''note00000001''
       [''content'' \<mapsto> JStr ''c''] sample_db
     = ([Json 200 (NoteDoc \<lparr>n_id = ''note00000001'', n_title = JNull, n_content = JStr ''c'',
                             n_folderId = JNull, n_tags = JArr [], n_userId = alice,
                             n_updatedAt = 7\<rparr> [])],
        sample_db\<lparr>db_notes := [\<lparr>n_id = ''note00000001'', n_title = JNull,
                             n_content = JStr ''c'', n_folderId = JNull, n_tags = JArr [],
                             n_userId = alice, n_updatedAt = 7\<rparr>]\<rparr>)
   \<and> find (\<lambda>n. n_id n = ''note00000001'')
       (db_notes (snd (put_note objectIdValid objectIdCastable sample_schema True 7 alice
                         ''note00000001'' [''content'' \<mapsto> JStr ''c''] sample_db)))
     = Some \<lparr>n_id = ''note00000001'', n_title = JNull, n_content = JStr ''c'',
             n_folderId = JNull, n_tags = JArr [], n_userId = alice, n_updatedAt = 7\<rparr>
   \<and> fst (put_note objectIdValid objectIdCastable sample_schema True 7 alice ''note00000001''
            [''title'' \<mapsto> JStr ''''] sample_db) = [NextErr 400 MissingTitle]"
proof -
  let ?b = "[''content'' \<mapsto> JStr ''c'']"
  let ?b' = "[''title'' \<mapsto> JStr '''']"
  let ?new = "\<lparr>n_id = ''note00000001'', n_title = JNull, n_content = JStr ''c'',
               n_folderId = JNull, n_tags = JArr [], n_userId = alice, n_updatedAt = 7\<rparr>"
  have omitted: "?b ''title'' = None" by simp
  have ident: "objectIdValid (JStr ''note00000001'')" by simp
  have folder: "\<not> (truthy (field ?b ''folderId'') \<and> \<not> objectIdValid (field ?b ''folderId''))"
    by (simp add: field_def)
  have tags: "invalid_tags objectIdValid (default_tags (field ?b ''tags'')) = Some []"
    by (simp add: field_def default_tags_def invalid_tags_def)
  have vf: "validateFolderId objectIdCastable (field ?b ''folderId'') alice
              (db_folders sample_db) = Resolved"
    by (simp add: field_def validateFolderId_def)
  have vt: "validateTagIds objectIdCastable (default_tags (field ?b ''tags'')) alice
              (db_tags sample_db) = Returned Resolved"
    by (simp add: field_def default_tags_def validateTagIds_def)
  have cast: "sample_schema JUndefined (field ?b ''content'') (field ?b ''folderId'')
                (default_tags (field ?b ''tags''))
              = Some (JUndefined, JStr ''c'', JUndefined, JArr [])"
    by (simp add: field_def default_tags_def sample_schema_def)
  have found: "find (\<lambda>n. n_id n = ''note00000001'') (db_notes sample_db) = Some alice_note"
    by (simp add: sample_defs)
  have new: "updateNote JUndefined (JStr ''c'') JUndefined (JArr []) alice 7 alice_note = ?new"
    by (simp add: updateNote_def written_def alice_note_def)
  have store: "update_first (\<lambda>n. n_id n = ''note00000001'')
                 (updateNote JUndefined (JStr ''c'') JUndefined (JArr []) alice 7)
                 (db_notes sample_db) = [?new]"
    by (simp add: updateNote_def written_def sample_defs)
  have empty: "field ?b' ''title'' = JStr []" by (simp add: field_def)
  note proceeds = put_without_title_proceeds [where b = "?b" and isValid = objectIdValid
            and castable = objectIdCastable and schema = sample_schema and userId = alice
            and ident = "''note00000001''" and d = sample_db and c = "JStr ''c''"
            and f = JUndefined and g = "JArr []" and ff = True and now = 7 and b' = "?b'"
            and d' = sample_db, OF omitted ident folder tags vf vt cast]
  from proceeds found
  have run: "put_note objectIdValid objectIdCastable sample_schema True 7 alice
               ''note00000001'' ?b sample_db
      = ([Json 200 (NoteDoc
            (updateNote JUndefined (JStr ''c'') JUndefined (JArr []) alice 7 alice_note)
            (populate (db_tags sample_db)
               (updateNote JUndefined (JStr ''c'') JUndefined (JArr []) alice 7 alice_note)))],
         sample_db\<lparr>db_notes := update_first (\<lambda>n. n_id n = ''note00000001'')
            (updateNote JUndefined (JStr ''c'') JUndefined (JArr []) alice 7)
            (db_notes sample_db)\<rparr>)"
    by blast
  from proceeds found
  have look: "find (\<lambda>n. n_id n = ''note00000001'')
       (db_notes (snd (put_note objectIdValid objectIdCastable sample_schema True 7 alice
                         ''note00000001'' ?b sample_db)))
      = Some (updateNote JUndefined (JStr ''c'') JUndefined (JArr []) alice 7 alice_note)"
    by blast
  from proceeds empty ident
  have title: "fst (put_note objectIdValid objectIdCastable sample_schema True 7 alice
                      ''note00000001'' ?b' sample_db) = [NextErr 400 MissingTitle]"
    by blast
  have run': "put_note objectIdValid objectIdCastable sample_schema True 7 alice
                ''note00000001'' ?b sample_db
      = ([Json 200 (NoteDoc ?new [])], sample_db\<lparr>db_notes := [?new]\<rparr>)"
    using run unfolding new store by (simp add: populate_def List.map_filter_def)
  have look': "find (\<lambda>n. n_id n = ''note00000001'')
       (db_notes (snd (put_note objectIdValid objectIdCastable sample_schema True 7 alice
                         ''note00000001'' ?b sample_db))) = Some ?new"
    using look unfolding new .
  from run' look' title show ?thesis by blast
qed

end
